theory Spec2Isabelle
  imports Complex_Main
begin

section \<open>Python values and the environment of the program\<close>

text \<open>
  The exceptions the program can meet. Each carries the text that \<^verbatim>\<open>str(e)\<close>
  renders, but \<^verbatim>\<open>FileNotFoundError\<close>, which carries the file name.
  \<^verbatim>\<open>ClientError\<close> is the provider's reported failure
  (botocore.exceptions.ClientError); \<^verbatim>\<open>BotoCoreError\<close> stands for what the client
  library raises without a provider answer (no credentials, no connection, no region,
  parameter validation). \<^verbatim>\<open>FileNotFoundError\<close>, \<^verbatim>\<open>OSError\<close> and
  \<^verbatim>\<open>UnicodeDecodeError\<close> come from \<^verbatim>\<open>open\<close> and \<^verbatim>\<open>read\<close>.
  \<^verbatim>\<open>HeaderParseError\<close> and \<^verbatim>\<open>HeaderWriteError\<close> are what the
  \<^verbatim>\<open>email\<close> package raises when it is asked to render a message one of whose
  header values it refuses (a value with an embedded line break).
\<close>

datatype exn =
    ClientError string
  | BotoCoreError string
  | FileNotFoundError string
  | OSError string
  | UnicodeDecodeError string
  | HeaderParseError string
  | HeaderWriteError string

text \<open>
  Python's truth value of an optional string or list: \<^verbatim>\<open>None\<close> is false, and so is
  the empty string and the empty list.
\<close>

definition truthy :: "'a list option \<Rightarrow> bool" where
  "truthy v = (case v of None \<Rightarrow> False | Some xs \<Rightarrow> xs \<noteq> [])"

text \<open>\<^verbatim>\<open>sep.join(xs)\<close> on a list of strings.\<close>

fun join :: "string \<Rightarrow> string list \<Rightarrow> string" where
  "join sep [] = []"
| "join sep [x] = x"
| "join sep (x # y # ys) = x @ sep @ join sep (y # ys)"

subsection \<open>The provider's answers\<close>

record send_response =
  MessageId :: string

record send_quota =
  Max24HourSend :: real
  MaxSendRate :: real
  SentLast24Hours :: real

text \<open>The message of the structured send: the dictionary with the keys Subject and Body.\<close>

record message =
  Subject :: "string \<rightharpoonup> string"
  Body :: "string \<rightharpoonup> (string \<rightharpoonup> string)"

subsection \<open>The provider client\<close>

text \<open>
  The client that \<^verbatim>\<open>boto3.client('ses', ...)\<close> returns is outside the repository. It
  is a record of the four operations the program calls, each taking its keyword arguments
  in the order of the call, acting on the provider's own state \<open>'p\<close>, and either
  raising or answering.
  \<^item> \<open>api_send_email Source Destination Message\<close>
  \<^item> \<open>api_send_raw_email Source Destinations RawMessage\<close>
  \<^item> \<open>api_verify_email_identity EmailAddress\<close>
  \<^item> \<open>api_get_send_quota\<close>
\<close>

record 'p ses_client =
  api_send_email ::
    "string \<Rightarrow> (string \<rightharpoonup> string list) \<Rightarrow> message \<Rightarrow> 'p \<Rightarrow> (exn + send_response) \<times> 'p"
  api_send_raw_email ::
    "string \<Rightarrow> string list \<Rightarrow> (string \<rightharpoonup> string) \<Rightarrow> 'p \<Rightarrow> (exn + send_response) \<times> 'p"
  api_verify_email_identity ::
    "string \<Rightarrow> 'p \<Rightarrow> (exn + unit) \<times> 'p"
  api_get_send_quota ::
    "'p \<Rightarrow> (exn + send_quota) \<times> 'p"

subsection \<open>Files\<close>

text \<open>
  What \<^verbatim>\<open>open(path, 'r', encoding='utf-8')\<close> followed by \<^verbatim>\<open>read()\<close> finds at a
  path: no file; a file that cannot be opened or read (with the text of the error); a file
  whose bytes are not UTF-8 (with the text of the error); or a file whose bytes are the
  UTF-8 encoding of a text.
\<close>

datatype file_entry =
    Absent
  | Unreadable string
  | Undecodable string
  | Text string

subsection \<open>The state\<close>

text \<open>
  The two attributes of the \<^verbatim>\<open>AWSEmailSender\<close> instance (\<open>region_name\<close> and
  \<open>ses_client\<close>), and the world the program acts on: the provider's state, the files, and
  the lines printed so far.
\<close>

record 'p state =
  region_name :: string
  ses_client :: "'p ses_client"
  provider :: 'p
  files :: "string \<Rightarrow> file_entry"
  stdout :: "string list"

definition print :: "string \<Rightarrow> 'p state \<Rightarrow> 'p state" where
  "print line s = s\<lparr>stdout := stdout s @ [line]\<rparr>"

section \<open>AWSEmailSender\<close>

text \<open>
  The constructor: \<open>boto3_client\<close> is \<^verbatim>\<open>boto3.client\<close>, taken as a parameter; it
  gives a client or raises, and what it raises leaves the constructor, so that no instance
  is made. The region defaults to us-east-1.
\<close>

definition AWSEmailSender_init ::
  "(string \<Rightarrow> string \<Rightarrow> exn + 'p ses_client) \<Rightarrow> string option \<Rightarrow> 'p state \<Rightarrow>
     exn + 'p state" where
  "AWSEmailSender_init boto3_client region s =
     (let region_name = (case region of None \<Rightarrow> ''us-east-1'' | Some r \<Rightarrow> r)
      in case boto3_client ''ses'' region_name of
           Inl e \<Rightarrow> Inl e
         | Inr client \<Rightarrow> Inr (s\<lparr>region_name := region_name, ses_client := client\<rparr>))"

subsection \<open>send_email\<close>

text \<open>Lines 45 to 52: the destination dictionary.\<close>

definition send_email_destination ::
  "string list \<Rightarrow> string list option \<Rightarrow> string list option \<Rightarrow> (string \<rightharpoonup> string list)" where
  "send_email_destination recipient_emails cc_emails bcc_emails =
     (let destination = [''ToAddresses'' \<mapsto> recipient_emails];
          destination = (case cc_emails of
                           Some cc \<Rightarrow> if truthy cc_emails
                                      then destination(''CcAddresses'' \<mapsto> cc) else destination
                         | None \<Rightarrow> destination);
          destination = (case bcc_emails of
                           Some bcc \<Rightarrow> if truthy bcc_emails
                                       then destination(''BccAddresses'' \<mapsto> bcc) else destination
                         | None \<Rightarrow> destination)
      in destination)"

text \<open>Lines 55 to 73: the message dictionary.\<close>

definition send_email_message :: "string \<Rightarrow> string \<Rightarrow> string option \<Rightarrow> message" where
  "send_email_message subject html_content text_content =
     (let message = \<lparr>Subject = [''Data'' \<mapsto> subject, ''Charset'' \<mapsto> ''UTF-8''],
                     Body = [''Html'' \<mapsto> [''Data'' \<mapsto> html_content, ''Charset'' \<mapsto> ''UTF-8'']]\<rparr>
      in case text_content of
           Some text \<Rightarrow>
             if truthy text_content
             then message\<lparr>Body := (Body message)(''Text'' \<mapsto> [''Data'' \<mapsto> text, ''Charset'' \<mapsto> ''UTF-8''])\<rparr>
             else message
         | None \<Rightarrow> message)"

text \<open>
  The whole method: the call to the client, the response returned, a
  \<^verbatim>\<open>ClientError\<close> printed and turned into \<^verbatim>\<open>None\<close>, any other exception left to
  the caller (\<open>Inl\<close>).
\<close>

definition send_email ::
  "string \<Rightarrow> string list \<Rightarrow> string \<Rightarrow> string \<Rightarrow> string option \<Rightarrow> string list option \<Rightarrow>
     string list option \<Rightarrow> 'p state \<Rightarrow> (exn + send_response option) \<times> 'p state" where
  "send_email sender_email recipient_emails subject html_content text_content cc_emails bcc_emails s =
     (let destination = send_email_destination recipient_emails cc_emails bcc_emails;
          message = send_email_message subject html_content text_content
      in case api_send_email (ses_client s) sender_email destination message (provider s) of
           (Inr response, p) \<Rightarrow> (Inr (Some response), s\<lparr>provider := p\<rparr>)
         | (Inl (ClientError e), p) \<Rightarrow>
             (Inr None, print (''Error sending email: '' @ e) (s\<lparr>provider := p\<rparr>))
         | (Inl other, p) \<Rightarrow> (Inl other, s\<lparr>provider := p\<rparr>))"

subsection \<open>send_raw_email\<close>

text \<open>
  The MIME objects of the \<^verbatim>\<open>email\<close> package, as far as the program builds them: a
  text part is its text, subtype and charset; a multipart container is its subtype, the
  headers assigned with \<^verbatim>\<open>msg[name] = value\<close> in the order of assignment, and the
  attached parts in the order of attachment.
\<close>

datatype mime_text = MIMEText string string string

record mime_multipart =
  subtype :: string
  headers :: "(string \<times> string) list"
  payload :: "mime_text list"

definition MIMEMultipart :: "string \<Rightarrow> mime_multipart" where
  "MIMEMultipart st = \<lparr>subtype = st, headers = [], payload = []\<rparr>"

definition setitem :: "mime_multipart \<Rightarrow> string \<Rightarrow> string \<Rightarrow> mime_multipart" where
  "setitem msg name val = msg\<lparr>headers := headers msg @ [(name, val)]\<rparr>"

definition attach :: "mime_multipart \<Rightarrow> mime_text \<Rightarrow> mime_multipart" where
  "attach msg part = msg\<lparr>payload := payload msg @ [part]\<rparr>"

text \<open>Lines 104 to 116: the MIME message.\<close>

definition send_raw_email_msg ::
  "string \<Rightarrow> string list \<Rightarrow> string \<Rightarrow> string \<Rightarrow> string option \<Rightarrow> mime_multipart" where
  "send_raw_email_msg sender_email recipient_emails subject html_content text_content =
     (let msg = MIMEMultipart ''alternative'';
          msg = setitem msg ''Subject'' subject;
          msg = setitem msg ''From'' sender_email;
          msg = setitem msg ''To'' (join '', '' recipient_emails);
          msg = (case text_content of
                   Some text \<Rightarrow>
                     if truthy text_content
                     then (let text_part = MIMEText text ''plain'' ''utf-8'' in attach msg text_part)
                     else msg
                 | None \<Rightarrow> msg);
          html_part = MIMEText html_content ''html'' ''utf-8''
      in attach msg html_part)"

text \<open>
  The whole method. \<open>as_string\<close> is \<^verbatim>\<open>Message.as_string\<close> of the \<^verbatim>\<open>email\<close>
  package, a parameter: it renders the document or raises (\<^verbatim>\<open>HeaderParseError\<close>,
  \<^verbatim>\<open>HeaderWriteError\<close>). Line 122 evaluates it inside the \<^verbatim>\<open>try\<close>, before the
  client is called: what it raises meets the same handler as what the client raises, so
  that anything but a \<^verbatim>\<open>ClientError\<close> reaches the caller, and the client is not
  called.
\<close>

definition send_raw_email ::
  "(mime_multipart \<Rightarrow> exn + string) \<Rightarrow> string \<Rightarrow> string list \<Rightarrow> string \<Rightarrow> string \<Rightarrow>
     string option \<Rightarrow> 'p state \<Rightarrow> (exn + send_response option) \<times> 'p state" where
  "send_raw_email as_string sender_email recipient_emails subject html_content text_content s =
     (let msg = send_raw_email_msg sender_email recipient_emails subject html_content text_content
      in case as_string msg of
           Inl (ClientError e) \<Rightarrow> (Inr None, print (''Error sending raw email: '' @ e) s)
         | Inl other \<Rightarrow> (Inl other, s)
         | Inr data \<Rightarrow>
             (case api_send_raw_email (ses_client s) sender_email recipient_emails
                     [''Data'' \<mapsto> data] (provider s) of
                (Inr response, p) \<Rightarrow> (Inr (Some response), s\<lparr>provider := p\<rparr>)
              | (Inl (ClientError e), p) \<Rightarrow>
                  (Inr None, print (''Error sending raw email: '' @ e) (s\<lparr>provider := p\<rparr>))
              | (Inl other, p) \<Rightarrow> (Inl other, s\<lparr>provider := p\<rparr>)))"

subsection \<open>verify_email_address and get_send_quota\<close>

definition verify_email_address :: "string \<Rightarrow> 'p state \<Rightarrow> (exn + bool) \<times> 'p state" where
  "verify_email_address email_address s =
     (case api_verify_email_identity (ses_client s) email_address (provider s) of
        (Inr response, p) \<Rightarrow>
          (Inr True, print (''Verification email sent to '' @ email_address) (s\<lparr>provider := p\<rparr>))
      | (Inl (ClientError e), p) \<Rightarrow>
          (Inr False, print (''Error verifying email address: '' @ e) (s\<lparr>provider := p\<rparr>))
      | (Inl other, p) \<Rightarrow> (Inl other, s\<lparr>provider := p\<rparr>))"

definition get_send_quota :: "'p state \<Rightarrow> (exn + send_quota option) \<times> 'p state" where
  "get_send_quota s =
     (case api_get_send_quota (ses_client s) (provider s) of
        (Inr response, p) \<Rightarrow> (Inr (Some response), s\<lparr>provider := p\<rparr>)
      | (Inl (ClientError e), p) \<Rightarrow>
          (Inr None, print (''Error getting send quota: '' @ e) (s\<lparr>provider := p\<rparr>))
      | (Inl other, p) \<Rightarrow> (Inl other, s\<lparr>provider := p\<rparr>))"

section \<open>load_html_template\<close>

definition CR :: char where
  "CR = CHR 0x0D"

definition LF :: char where
  "LF = CHR 0x0A"

text \<open>
  Reading in text mode with the default \<^verbatim>\<open>newline=None\<close>: every line ending, CR LF
  or a lone CR, reaches the caller as LF.
\<close>

fun universal_newlines :: "string \<Rightarrow> string" where
  "universal_newlines [] = []"
| "universal_newlines [c] = (if c = CR then [LF] else [c])"
| "universal_newlines (c # d # cs) =
     (if c = CR \<and> d = LF then LF # universal_newlines cs
      else if c = CR then LF # universal_newlines (d # cs)
      else c # universal_newlines (d # cs))"

text \<open>
  Lines 176 and 177: \<^verbatim>\<open>open(template_path, 'r', encoding='utf-8')\<close> and
  \<^verbatim>\<open>file.read()\<close>. \<^verbatim>\<open>FileNotFoundError\<close> carries the file name.
\<close>

definition open_read :: "string \<Rightarrow> 'p state \<Rightarrow> exn + string" where
  "open_read path s =
     (case files s path of
        Absent \<Rightarrow> Inl (FileNotFoundError path)
      | Unreadable e \<Rightarrow> Inl (OSError e)
      | Undecodable e \<Rightarrow> Inl (UnicodeDecodeError e)
      | Text t \<Rightarrow> Inr (universal_newlines t))"

text \<open>
  \<^verbatim>\<open>str(e)\<close>, as the f-string of line 182 renders the exception. For
  \<^verbatim>\<open>FileNotFoundError\<close> the file name stands between single quotes, as Python shows
  a name that holds no quote and nothing to escape.
\<close>

fun str :: "exn \<Rightarrow> string" where
  "str (ClientError e) = e"
| "str (BotoCoreError e) = e"
| "str (FileNotFoundError path) =
     ''[Errno 2] No such file or directory: '' @ [CHR 0x27] @ path @ [CHR 0x27]"
| "str (OSError e) = e"
| "str (UnicodeDecodeError e) = e"
| "str (HeaderParseError e) = e"
| "str (HeaderWriteError e) = e"

definition load_html_template :: "string \<Rightarrow> 'p state \<Rightarrow> (exn + string option) \<times> 'p state" where
  "load_html_template template_path s =
     (case open_read template_path s of
        Inr content \<Rightarrow> (Inr (Some content), s)
      | Inl (FileNotFoundError _) \<Rightarrow>
          (Inr None, print (''Template file not found: '' @ template_path) s)
      | Inl e \<Rightarrow> (Inr None, print (''Error reading template file: '' @ str e) s))"

section \<open>Test doubles\<close>

text \<open>
  A provider that accepts every request and answers every send with the identifier
  msg-1; its state counts the messages sent.
\<close>

definition echo_client :: "nat ses_client" where
  "echo_client =
     \<lparr>api_send_email = (\<lambda>Source Destination Message n. (Inr \<lparr>MessageId = ''msg-1''\<rparr>, Suc n)),
      api_send_raw_email = (\<lambda>Source Destinations RawMessage n. (Inr \<lparr>MessageId = ''msg-1''\<rparr>, Suc n)),
      api_verify_email_identity = (\<lambda>EmailAddress n. (Inr (), n)),
      api_get_send_quota =
        (\<lambda>n. (Inr \<lparr>Max24HourSend = 200, MaxSendRate = 1, SentLast24Hours = real n\<rparr>, n))\<rparr>"

text \<open>A provider that rejects every request.\<close>

definition rejecting_client :: "nat ses_client" where
  "rejecting_client =
     \<lparr>api_send_email = (\<lambda>Source Destination Message n. (Inl (ClientError ''MessageRejected''), n)),
      api_send_raw_email = (\<lambda>Source Destinations RawMessage n. (Inl (ClientError ''MessageRejected''), n)),
      api_verify_email_identity = (\<lambda>EmailAddress n. (Inl (ClientError ''Throttling''), n)),
      api_get_send_quota = (\<lambda>n. (Inl (ClientError ''Throttling''), n))\<rparr>"

text \<open>
  A file system with one template whose two lines end in CR LF, and one file that cannot
  be opened.
\<close>

definition example_files :: "string \<Rightarrow> file_entry" where
  "example_files path =
     (if path = ''template.html'' then Text (''<p>Hi</p>'' @ [CR, LF] @ ''<p>Bye</p>'' @ [CR, LF])
      else if path = ''plain.html'' then Text ''<p>Hi</p>''
      else if path = ''locked.html'' then Unreadable ''[Errno 13] Permission denied''
      else Absent)"

definition example_state :: "nat ses_client \<Rightarrow> nat state" where
  "example_state client =
     \<lparr>region_name = ''us-east-1'', ses_client = client, provider = 0,
      files = example_files, stdout = []\<rparr>"

text \<open>
  A renderer of messages and the two readers of what it renders, standing in for the
  \<^verbatim>\<open>email\<close> package. Like the package, the renderer refuses a header value that holds
  an embedded header: a line feed followed by one or more characters other than space and
  tab, and a colon. What it accepts it writes out string by string, each one after its
  length, so that the readers find the headers and the parts again.
\<close>

fun embedded_header :: "string \<Rightarrow> bool" where
  "embedded_header [] = False"
| "embedded_header (c # cs) =
     ((c = LF \<and> CHR '':'' \<in> set (tl (takeWhile (\<lambda>d. d \<noteq> CHR '' '' \<and> d \<noteq> CHR 0x09) cs)))
      \<or> embedded_header cs)"

definition frame :: "string \<Rightarrow> string" where
  "frame x = replicate (length x) (CHR ''+'') @ CHR ''|'' # x"

definition unframe :: "string \<Rightarrow> string \<times> string" where
  "unframe d =
     (let n = length (takeWhile (\<lambda>c. c = CHR ''+'') d); r = drop (Suc n) d
      in (take n r, drop n r))"

definition frames :: "string list \<Rightarrow> string" where
  "frames xs = frame (replicate (length xs) (CHR ''+'')) @ concat (map frame xs)"

fun unframes :: "nat \<Rightarrow> string \<Rightarrow> string list \<times> string" where
  "unframes 0 d = ([], d)"
| "unframes (Suc n) d =
     (case unframe d of (x, r) \<Rightarrow> (case unframes n r of (xs, r') \<Rightarrow> (x # xs, r')))"

definition unframe_list :: "string \<Rightarrow> string list \<times> string" where
  "unframe_list d = (case unframe d of (c, r) \<Rightarrow> unframes (length c) r)"


fun triples :: "string list \<Rightarrow> mime_text list" where
  "triples (t # st # cs # xs) = MIMEText t st cs # triples xs"
| "triples _ = []"

definition render :: "mime_multipart \<Rightarrow> string" where
  "render m =
     frames (subtype m # concat (map (\<lambda>(n, v). [n, v]) (headers m)))
     @ frames (concat (map (\<lambda>part. case part of MIMEText t st cs \<Rightarrow> [t, st, cs]) (payload m)))"

definition test_as_string :: "mime_multipart \<Rightarrow> exn + string" where
  "test_as_string m =
     (if list_ex (\<lambda>(n, v). embedded_header v) (headers m)
      then Inl (HeaderParseError ''header value appears to contain an embedded header'')
      else Inr (render m))"


definition document_parts :: "string \<Rightarrow> mime_text list" where
  "document_parts d = triples (fst (unframe_list (snd (unframe_list d))))"

text \<open>A subject that holds an embedded header: \<^verbatim>\<open>"Hi\nBcc: evil@x.com"\<close>.\<close>

definition injecting_subject :: string where
  "injecting_subject = ''Hi'' @ [LF] @ ''Bcc: evil@x.com''"

section \<open>Shared lemmas\<close>

lemma universal_newlines_no_CR: "CR \<notin> set t \<Longrightarrow> universal_newlines t = t"
  by (induction t rule: universal_newlines.induct) auto

text \<open>
  What \<open>send_email\<close> returns is decided by the client's answer to one call, made with
  the destination and the message built before it.
\<close>

lemma send_email_call:
  "fst (send_email sender_email recipient_emails subject html_content text_content cc_emails bcc_emails s) =
     (case fst (api_send_email (ses_client s) sender_email
                  (send_email_destination recipient_emails cc_emails bcc_emails)
                  (send_email_message subject html_content text_content) (provider s)) of
        Inr response \<Rightarrow> Inr (Some response)
      | Inl (ClientError e) \<Rightarrow> Inr None
      | Inl other \<Rightarrow> Inl other)"
  by (simp add: send_email_def split: prod.splits sum.splits exn.splits)

text \<open>
  What \<open>send_raw_email\<close> returns is decided by the rendering of the message built before
  it and, when there is a rendering, by the client's answer to one call, made with the
  recipients as destinations and the rendering as data.
\<close>

lemma send_raw_email_call:
  "fst (send_raw_email as_string sender_email recipient_emails subject html_content text_content s) =
     (case as_string (send_raw_email_msg sender_email recipient_emails subject html_content
                        text_content) of
        Inl (ClientError e) \<Rightarrow> Inr None
      | Inl other \<Rightarrow> Inl other
      | Inr data \<Rightarrow>
          (case fst (api_send_raw_email (ses_client s) sender_email recipient_emails
                       [''Data'' \<mapsto> data] (provider s)) of
             Inr response \<Rightarrow> Inr (Some response)
           | Inl (ClientError e) \<Rightarrow> Inr None
           | Inl other \<Rightarrow> Inl other))"
  by (simp add: send_raw_email_def split: prod.splits sum.splits exn.splits)

lemma subtype_send_raw_email_msg:
  "subtype (send_raw_email_msg sender_email recipient_emails subject html_content text_content)
     = ''alternative''"
  by (simp add: send_raw_email_msg_def MIMEMultipart_def setitem_def attach_def Let_def
      split: option.splits)

lemma payload_send_raw_email_msg:
  "payload (send_raw_email_msg sender_email recipient_emails subject html_content text_content) =
     (if truthy text_content
      then [MIMEText (the text_content) ''plain'' ''utf-8'', MIMEText html_content ''html'' ''utf-8'']
      else [MIMEText html_content ''html'' ''utf-8''])"
  by (simp add: send_raw_email_msg_def MIMEMultipart_def setitem_def attach_def Let_def truthy_def
      split: option.splits)

lemma headers_send_raw_email_msg:
  "headers (send_raw_email_msg sender_email recipient_emails subject html_content text_content) =
     [(''Subject'', subject), (''From'', sender_email), (''To'', join '', '' recipient_emails)]"
  by (simp add: send_raw_email_msg_def MIMEMultipart_def setitem_def attach_def Let_def
      split: option.splits)

lemma send_email_destination_apply:
  "send_email_destination recipient_emails cc_emails bcc_emails k =
     (if k = ''BccAddresses'' \<and> truthy bcc_emails then bcc_emails
      else if k = ''CcAddresses'' \<and> truthy cc_emails then cc_emails
      else if k = ''ToAddresses'' then Some recipient_emails
      else None)"
  by (simp add: send_email_destination_def truthy_def Let_def split: option.splits)

lemma Body_send_email_message:
  "Body (send_email_message subject html_content text_content) k =
     (if k = ''Text'' \<and> truthy text_content
      then Some [''Data'' \<mapsto> the text_content, ''Charset'' \<mapsto> ''UTF-8'']
      else if k = ''Html'' then Some [''Data'' \<mapsto> html_content, ''Charset'' \<mapsto> ''UTF-8'']
      else None)"
  by (simp add: send_email_message_def truthy_def Let_def split: option.splits)

text \<open>
  The handlers catch \<^verbatim>\<open>ClientError\<close> only: an exception of the client library that
  is not one reaches the caller.
\<close>

lemma send_email_other_exception_escapes:
  "api_send_email (ses_client s) sender_email
        (send_email_destination recipient_emails cc_emails bcc_emails)
        (send_email_message subject html_content text_content) (provider s)
      = (Inl (BotoCoreError e), p) \<Longrightarrow>
   send_email sender_email recipient_emails subject html_content text_content cc_emails bcc_emails s
      = (Inl (BotoCoreError e), s\<lparr>provider := p\<rparr>)"
  by (simp add: send_email_def)


text \<open>The readers find again what the renderer wrote.\<close>

lemma takeWhile_replicate_stop:
  "b \<noteq> a \<Longrightarrow> takeWhile (\<lambda>c. c = a) (replicate n a @ b # r) = replicate n a"
  by (induction n) simp_all

lemma unframe_frame: "unframe (frame x @ r) = (x, r)"
  by (simp add: unframe_def frame_def Let_def takeWhile_replicate_stop)

lemma unframes_frames: "unframes (length xs) (concat (map frame xs) @ r) = (xs, r)"
  by (induction xs) (simp_all add: unframe_frame)

lemma unframe_list_frames: "unframe_list (frames xs @ r) = (xs, r)"
  by (simp add: unframe_list_def frames_def unframe_frame unframes_frames)


lemma triples_flat:
  "triples (concat (map (\<lambda>part. case part of MIMEText t st cs \<Rightarrow> [t, st, cs]) ps)) = ps"
  by (induction ps) (auto split: mime_text.splits)

lemma document_parts_render: "document_parts (render m) = payload m"
proof -
  have "unframe_list (render m)
          = (subtype m # concat (map (\<lambda>(n, v). [n, v]) (headers m)),
             frames (concat (map (\<lambda>part. case part of MIMEText t st cs \<Rightarrow> [t, st, cs])
                       (payload m))))"
    by (simp add: render_def unframe_list_frames)
  moreover have "unframe_list (frames (concat (map (\<lambda>part. case part of MIMEText t st cs \<Rightarrow> [t, st, cs])
                                 (payload m))))
                   = (concat (map (\<lambda>part. case part of MIMEText t st cs \<Rightarrow> [t, st, cs]) (payload m)), [])"
    using unframe_list_frames [of _ "[]"] by simp
  ultimately show ?thesis
    by (simp add: document_parts_def triples_flat)
qed


lemma test_as_string_parts: "test_as_string m = Inr d \<Longrightarrow> document_parts d = payload m"
  by (auto simp: test_as_string_def document_parts_render split: if_splits)


lemma AWSEmailSender_init_fields:
  "AWSEmailSender_init boto3_client region s =
     (case boto3_client ''ses'' (case region of None \<Rightarrow> ''us-east-1'' | Some r \<Rightarrow> r) of
        Inl e \<Rightarrow> Inl e
      | Inr client \<Rightarrow>
          Inr (s\<lparr>region_name := (case region of None \<Rightarrow> ''us-east-1'' | Some r \<Rightarrow> r),
                 ses_client := client\<rparr>))"
  by (simp add: AWSEmailSender_init_def Let_def)

text \<open>The example messages hold no embedded header, so the renderer accepts them.\<close>

lemma test_as_string_no_line_feed:
  "LF \<notin> set subject \<Longrightarrow> LF \<notin> set sender_email \<Longrightarrow> LF \<notin> set (join '', '' recipient_emails) \<Longrightarrow>
   test_as_string (send_raw_email_msg sender_email recipient_emails subject html_content text_content)
     = Inr (render (send_raw_email_msg sender_email recipient_emails subject html_content
                      text_content))"
proof -
  have no: "LF \<notin> set v \<Longrightarrow> \<not> embedded_header v" for v
    by (induction v) auto
  assume "LF \<notin> set subject" "LF \<notin> set sender_email" "LF \<notin> set (join '', '' recipient_emails)"
  then show ?thesis
    by (simp add: test_as_string_def headers_send_raw_email_msg no)
qed

section \<open>The parts of the raw document\<close>

text \<open>
  Against C1 as it is worded: a text body that is present but empty gives a document of
  one part, not two. The call \<^verbatim>\<open>send_raw_email("a@x.com", ["b@x.com"], "Hi",
  "<p>Hi</p>", "")\<close> builds a message whose only part is the HTML part, since line 110
  tests the truth value of \<^verbatim>\<open>text_content\<close>.
\<close>

theorem raw_email_present_empty_text_counterexample:
  "length (payload (send_raw_email_msg ''a@x.com'' [''b@x.com''] ''Hi'' ''<p>Hi</p>'' (Some ''''))) \<noteq> 2
   \<and> payload (send_raw_email_msg ''a@x.com'' [''b@x.com''] ''Hi'' ''<p>Hi</p>'' (Some ''''))
       = [MIMEText ''<p>Hi</p>'' ''html'' ''utf-8'']"
  by (simp add: payload_send_raw_email_msg truthy_def)

text \<open>
  C1, amended. The message that \<open>send_raw_email\<close> renders is multipart/alternative.
  When the text body is absent or empty, it has exactly one part, the HTML part. When the
  text body is present and not empty, it has exactly two parts: the plain text part, then
  the HTML part. The provider is called only when the rendering succeeds, and then with
  that rendering as its data; and for every renderer whose documents a reader gives the
  parts back from, the parts read from the document handed to the provider are these.
\<close>

theorem raw_email_parts:
  "fst (send_raw_email as_string sender_email recipient_emails subject html_content text_content s) =
     (case as_string (send_raw_email_msg sender_email recipient_emails subject html_content
                        text_content) of
        Inl (ClientError e) \<Rightarrow> Inr None
      | Inl other \<Rightarrow> Inl other
      | Inr data \<Rightarrow>
          (case fst (api_send_raw_email (ses_client s) sender_email recipient_emails
                       [''Data'' \<mapsto> data] (provider s)) of
             Inr response \<Rightarrow> Inr (Some response)
           | Inl (ClientError e) \<Rightarrow> Inr None
           | Inl other \<Rightarrow> Inl other))
   \<and> subtype (send_raw_email_msg sender_email recipient_emails subject html_content text_content)
       = ''alternative''
   \<and> (text_content = None \<or> text_content = Some [] \<longrightarrow>
        payload (send_raw_email_msg sender_email recipient_emails subject html_content text_content)
          = [MIMEText html_content ''html'' ''utf-8''])
   \<and> (\<forall>text. text_content = Some text \<and> text \<noteq> [] \<longrightarrow>
        payload (send_raw_email_msg sender_email recipient_emails subject html_content text_content)
          = [MIMEText text ''plain'' ''utf-8'', MIMEText html_content ''html'' ''utf-8''])
   \<and> ((\<forall>m d. as_string m = Inr d \<longrightarrow> parts_of d = payload m) \<longrightarrow>
        (\<forall>data. as_string (send_raw_email_msg sender_email recipient_emails subject html_content
                             text_content) = Inr data \<longrightarrow>
           (text_content = None \<or> text_content = Some [] \<longrightarrow>
              parts_of data = [MIMEText html_content ''html'' ''utf-8''])
           \<and> (\<forall>text. text_content = Some text \<and> text \<noteq> [] \<longrightarrow>
                parts_of data
                  = [MIMEText text ''plain'' ''utf-8'', MIMEText html_content ''html'' ''utf-8''])))"
proof -
  have absent:
    "text_content = None \<or> text_content = Some [] \<Longrightarrow>
       payload (send_raw_email_msg sender_email recipient_emails subject html_content text_content)
         = [MIMEText html_content ''html'' ''utf-8'']"
    by (auto simp: payload_send_raw_email_msg truthy_def)
  have present:
    "text_content = Some body \<Longrightarrow> body \<noteq> [] \<Longrightarrow>
       payload (send_raw_email_msg sender_email recipient_emails subject html_content text_content)
         = [MIMEText body ''plain'' ''utf-8'', MIMEText html_content ''html'' ''utf-8'']" for body
    by (simp add: payload_send_raw_email_msg truthy_def)
  show ?thesis
    using absent present
    by (simp add: send_raw_email_call subtype_send_raw_email_msg)
qed

theorem raw_email_parts_witness:
  "document_parts (render (send_raw_email_msg ''a@x.com'' [''b@x.com''] ''Hi'' ''<p>Hi</p>'' None))
     = [MIMEText ''<p>Hi</p>'' ''html'' ''utf-8'']
   \<and> document_parts (render (send_raw_email_msg ''a@x.com'' [''b@x.com''] ''Hi'' ''<p>Hi</p>''
                               (Some ''Hi'')))
     = [MIMEText ''Hi'' ''plain'' ''utf-8'', MIMEText ''<p>Hi</p>'' ''html'' ''utf-8'']
   \<and> fst (send_raw_email test_as_string ''a@x.com'' [''b@x.com''] ''Hi'' ''<p>Hi</p>'' (Some ''Hi'')
           (example_state echo_client))
     = Inr (Some \<lparr>MessageId = ''msg-1''\<rparr>)"
proof -
  have reads: "\<forall>m d. test_as_string m = Inr d \<longrightarrow> document_parts d = payload m"
    by (simp add: test_as_string_parts)
  have without:
    "test_as_string (send_raw_email_msg ''a@x.com'' [''b@x.com''] ''Hi'' ''<p>Hi</p>'' None)
       = Inr (render (send_raw_email_msg ''a@x.com'' [''b@x.com''] ''Hi'' ''<p>Hi</p>'' None))"
    by (rule test_as_string_no_line_feed) (simp_all add: LF_def)
  have with_text:
    "test_as_string (send_raw_email_msg ''a@x.com'' [''b@x.com''] ''Hi'' ''<p>Hi</p>'' (Some ''Hi''))
       = Inr (render (send_raw_email_msg ''a@x.com'' [''b@x.com''] ''Hi'' ''<p>Hi</p>'' (Some ''Hi'')))"
    by (rule test_as_string_no_line_feed) (simp_all add: LF_def)
  have one:
    "document_parts (render (send_raw_email_msg ''a@x.com'' [''b@x.com''] ''Hi'' ''<p>Hi</p>'' None))
       = [MIMEText ''<p>Hi</p>'' ''html'' ''utf-8'']"
    using raw_email_parts [of test_as_string "''a@x.com''" "[''b@x.com'']" "''Hi''" "''<p>Hi</p>''"
        None "example_state echo_client" document_parts] reads without
    by simp
  have two:
    "document_parts (render (send_raw_email_msg ''a@x.com'' [''b@x.com''] ''Hi'' ''<p>Hi</p>''
                               (Some ''Hi'')))
       = [MIMEText ''Hi'' ''plain'' ''utf-8'', MIMEText ''<p>Hi</p>'' ''html'' ''utf-8'']"
    using raw_email_parts [of test_as_string "''a@x.com''" "[''b@x.com'']" "''Hi''" "''<p>Hi</p>''"
        "Some ''Hi''" "example_state echo_client" document_parts] reads with_text
    by simp
  have sent:
    "fst (send_raw_email test_as_string ''a@x.com'' [''b@x.com''] ''Hi'' ''<p>Hi</p>'' (Some ''Hi'')
            (example_state echo_client))
       = Inr (Some \<lparr>MessageId = ''msg-1''\<rparr>)"
    using raw_email_parts [of test_as_string "''a@x.com''" "[''b@x.com'']" "''Hi''" "''<p>Hi</p>''"
        "Some ''Hi''" "example_state echo_client" document_parts] with_text
    by (simp add: example_state_def echo_client_def)
  from one two sent show ?thesis
    by blast
qed

section \<open>Provider failure and success on the two sends\<close>

text \<open>
  Against C2 as it is worded, for the raw send: with the subject
  \<^verbatim>\<open>"Hi\nBcc: evil@x.com"\<close> (\<open>injecting_subject\<close>) the message is not rendered, line 122 raises inside a
  \<^verbatim>\<open>try\<close> that catches \<^verbatim>\<open>ClientError\<close> only, and the exception reaches the
  caller. With a provider that would reject the request the result is not \<^verbatim>\<open>None\<close>
  and nothing is printed; with a provider that would accept it the result is not the
  receipt, and the provider is not called.
\<close>

theorem send_raw_email_unrendered_counterexample:
  "isl (fst (send_raw_email test_as_string ''a@x.com'' [''b@x.com'']
               injecting_subject ''<p>Hi</p>'' None
               (example_state rejecting_client)))
   \<and> fst (send_raw_email test_as_string ''a@x.com'' [''b@x.com'']
            injecting_subject ''<p>Hi</p>'' None
            (example_state rejecting_client)) \<noteq> Inr None
   \<and> stdout (snd (send_raw_email test_as_string ''a@x.com'' [''b@x.com'']
                    injecting_subject ''<p>Hi</p>'' None
                    (example_state rejecting_client))) = []
   \<and> isl (fst (send_raw_email test_as_string ''a@x.com'' [''b@x.com'']
                 injecting_subject ''<p>Hi</p>'' None
                 (example_state echo_client)))
   \<and> fst (send_raw_email test_as_string ''a@x.com'' [''b@x.com'']
            injecting_subject ''<p>Hi</p>'' None
            (example_state echo_client)) \<noteq> Inr (Some \<lparr>MessageId = ''msg-1''\<rparr>)
   \<and> provider (snd (send_raw_email test_as_string ''a@x.com'' [''b@x.com'']
                      injecting_subject ''<p>Hi</p>'' None
                      (example_state echo_client))) = 0"
proof -
  have refused:
    "test_as_string (send_raw_email_msg ''a@x.com'' [''b@x.com'']
                       injecting_subject ''<p>Hi</p>'' None)
       = Inl (HeaderParseError ''header value appears to contain an embedded header'')"
    by (simp add: test_as_string_def headers_send_raw_email_msg injecting_subject_def)
  show ?thesis
    by (simp add: send_raw_email_def refused example_state_def)
qed

text \<open>
  C2, amended. In \<open>send_email\<close>, and in \<open>send_raw_email\<close> when the message is rendered:
  when the provider reports a failure (the client raises \<^verbatim>\<open>ClientError\<close>), the
  operation prints one line, the failure, and returns \<^verbatim>\<open>None\<close>, and no exception
  reaches the caller (the result is \<open>Inr\<close>); when the provider answers with a receipt,
  the operation returns that receipt as it is, message identifier included, and prints
  nothing. When the message of \<open>send_raw_email\<close> is not rendered
  (\<^verbatim>\<open>HeaderParseError\<close>, \<^verbatim>\<open>HeaderWriteError\<close>), that exception reaches the caller,
  nothing is printed and the provider is not called.
\<close>

theorem send_provider_failure_and_success:
  "(api_send_email (ses_client s) sender_email
        (send_email_destination recipient_emails cc_emails bcc_emails)
        (send_email_message subject html_content text_content) (provider s)
      = (Inl (ClientError e), p) \<longrightarrow>
    send_email sender_email recipient_emails subject html_content text_content cc_emails bcc_emails s
      = (Inr None, s\<lparr>provider := p, stdout := stdout s @ [''Error sending email: '' @ e]\<rparr>))
   \<and> (api_send_email (ses_client s) sender_email
        (send_email_destination recipient_emails cc_emails bcc_emails)
        (send_email_message subject html_content text_content) (provider s)
      = (Inr response, p) \<longrightarrow>
    send_email sender_email recipient_emails subject html_content text_content cc_emails bcc_emails s
      = (Inr (Some response), s\<lparr>provider := p\<rparr>))
   \<and> (as_string (send_raw_email_msg sender_email recipient_emails subject html_content text_content)
        = Inr data
      \<and> api_send_raw_email (ses_client s) sender_email recipient_emails [''Data'' \<mapsto> data]
          (provider s) = (Inl (ClientError e), p) \<longrightarrow>
    send_raw_email as_string sender_email recipient_emails subject html_content text_content s
      = (Inr None, s\<lparr>provider := p, stdout := stdout s @ [''Error sending raw email: '' @ e]\<rparr>))
   \<and> (as_string (send_raw_email_msg sender_email recipient_emails subject html_content text_content)
        = Inr data
      \<and> api_send_raw_email (ses_client s) sender_email recipient_emails [''Data'' \<mapsto> data]
          (provider s) = (Inr response, p) \<longrightarrow>
    send_raw_email as_string sender_email recipient_emails subject html_content text_content s
      = (Inr (Some response), s\<lparr>provider := p\<rparr>))
   \<and> (as_string (send_raw_email_msg sender_email recipient_emails subject html_content text_content)
        = Inl (HeaderParseError m) \<longrightarrow>
    send_raw_email as_string sender_email recipient_emails subject html_content text_content s
      = (Inl (HeaderParseError m), s))
   \<and> (as_string (send_raw_email_msg sender_email recipient_emails subject html_content text_content)
        = Inl (HeaderWriteError m) \<longrightarrow>
    send_raw_email as_string sender_email recipient_emails subject html_content text_content s
      = (Inl (HeaderWriteError m), s))"
  by (simp add: send_email_def send_raw_email_def print_def)

theorem send_provider_failure_and_success_witness:
  "fst (send_email ''a@x.com'' [''b@x.com''] ''Hi'' ''<p>Hi</p>'' None None None
          (example_state rejecting_client)) = Inr None
   \<and> stdout (snd (send_email ''a@x.com'' [''b@x.com''] ''Hi'' ''<p>Hi</p>'' None None None
          (example_state rejecting_client))) = [''Error sending email: MessageRejected'']
   \<and> fst (send_email ''a@x.com'' [''b@x.com''] ''Hi'' ''<p>Hi</p>'' None None None
          (example_state echo_client)) = Inr (Some \<lparr>MessageId = ''msg-1''\<rparr>)
   \<and> stdout (snd (send_email ''a@x.com'' [''b@x.com''] ''Hi'' ''<p>Hi</p>'' None None None
          (example_state echo_client))) = []
   \<and> fst (send_raw_email test_as_string ''a@x.com'' [''b@x.com''] ''Hi'' ''<p>Hi</p>'' None
          (example_state rejecting_client)) = Inr None
   \<and> stdout (snd (send_raw_email test_as_string ''a@x.com'' [''b@x.com''] ''Hi'' ''<p>Hi</p>'' None
          (example_state rejecting_client))) = [''Error sending raw email: MessageRejected'']
   \<and> fst (send_raw_email test_as_string ''a@x.com'' [''b@x.com''] ''Hi'' ''<p>Hi</p>'' None
          (example_state echo_client)) = Inr (Some \<lparr>MessageId = ''msg-1''\<rparr>)
   \<and> send_raw_email test_as_string ''a@x.com'' [''b@x.com''] injecting_subject ''<p>Hi</p>'' None (example_state echo_client)
       = (Inl (HeaderParseError ''header value appears to contain an embedded header''),
          example_state echo_client)"
proof -
  have rendered:
    "test_as_string (send_raw_email_msg ''a@x.com'' [''b@x.com''] ''Hi'' ''<p>Hi</p>'' None)
       = Inr (render (send_raw_email_msg ''a@x.com'' [''b@x.com''] ''Hi'' ''<p>Hi</p>'' None))"
    by (rule test_as_string_no_line_feed) (simp_all add: LF_def)
  have refused:
    "test_as_string (send_raw_email_msg ''a@x.com'' [''b@x.com'']
                       injecting_subject ''<p>Hi</p>'' None)
       = Inl (HeaderParseError ''header value appears to contain an embedded header'')"
    by (simp add: test_as_string_def headers_send_raw_email_msg injecting_subject_def)
  have rejected:
    "fst (send_email ''a@x.com'' [''b@x.com''] ''Hi'' ''<p>Hi</p>'' None None None
            (example_state rejecting_client)) = Inr None
     \<and> stdout (snd (send_email ''a@x.com'' [''b@x.com''] ''Hi'' ''<p>Hi</p>'' None None None
            (example_state rejecting_client))) = [''Error sending email: MessageRejected'']
     \<and> fst (send_raw_email test_as_string ''a@x.com'' [''b@x.com''] ''Hi'' ''<p>Hi</p>'' None
            (example_state rejecting_client)) = Inr None
     \<and> stdout (snd (send_raw_email test_as_string ''a@x.com'' [''b@x.com''] ''Hi'' ''<p>Hi</p>'' None
            (example_state rejecting_client))) = [''Error sending raw email: MessageRejected'']"
    using send_provider_failure_and_success [of "example_state rejecting_client" "''a@x.com''"
        "[''b@x.com'']" None None "''Hi''" "''<p>Hi</p>''" None "''MessageRejected''" 0
        "\<lparr>MessageId = ''msg-1''\<rparr>" test_as_string
        "render (send_raw_email_msg ''a@x.com'' [''b@x.com''] ''Hi'' ''<p>Hi</p>'' None)"
        "''header value appears to contain an embedded header''"]
      rendered
    by (simp add: example_state_def rejecting_client_def)
  have accepted:
    "fst (send_email ''a@x.com'' [''b@x.com''] ''Hi'' ''<p>Hi</p>'' None None None
            (example_state echo_client)) = Inr (Some \<lparr>MessageId = ''msg-1''\<rparr>)
     \<and> stdout (snd (send_email ''a@x.com'' [''b@x.com''] ''Hi'' ''<p>Hi</p>'' None None None
            (example_state echo_client))) = []
     \<and> fst (send_raw_email test_as_string ''a@x.com'' [''b@x.com''] ''Hi'' ''<p>Hi</p>'' None
            (example_state echo_client)) = Inr (Some \<lparr>MessageId = ''msg-1''\<rparr>)"
    using send_provider_failure_and_success [of "example_state echo_client" "''a@x.com''"
        "[''b@x.com'']" None None "''Hi''" "''<p>Hi</p>''" None "''MessageRejected''" 1
        "\<lparr>MessageId = ''msg-1''\<rparr>" test_as_string
        "render (send_raw_email_msg ''a@x.com'' [''b@x.com''] ''Hi'' ''<p>Hi</p>'' None)"
        "''header value appears to contain an embedded header''"]
      rendered
    by (simp add: example_state_def echo_client_def)
  have escaped:
    "send_raw_email test_as_string ''a@x.com'' [''b@x.com''] injecting_subject ''<p>Hi</p>'' None (example_state echo_client)
       = (Inl (HeaderParseError ''header value appears to contain an embedded header''),
          example_state echo_client)"
    using send_provider_failure_and_success [of "example_state echo_client" "''a@x.com''"
        "[''b@x.com'']" None None injecting_subject "''<p>Hi</p>''" None
        "''MessageRejected''" 1 "\<lparr>MessageId = ''msg-1''\<rparr>" test_as_string "''doc''"
        "''header value appears to contain an embedded header''"]
      refused
    by blast
  from rejected accepted escaped show ?thesis
    by blast
qed

section \<open>The request of the structured send\<close>

text \<open>
  C3. The destination that \<open>send_email\<close> hands to the provider has the recipients under
  ToAddresses, has the key CcAddresses if and only if the cc sequence is a non-empty
  list, and has the key BccAddresses if and only if the bcc sequence is a non-empty list;
  where present, the two keys hold the sequences given.
\<close>

theorem send_email_destination_fields:
  "fst (send_email sender_email recipient_emails subject html_content text_content cc_emails bcc_emails s) =
     (case fst (api_send_email (ses_client s) sender_email
                  (send_email_destination recipient_emails cc_emails bcc_emails)
                  (send_email_message subject html_content text_content) (provider s)) of
        Inr response \<Rightarrow> Inr (Some response)
      | Inl (ClientError e) \<Rightarrow> Inr None
      | Inl other \<Rightarrow> Inl other)
   \<and> send_email_destination recipient_emails cc_emails bcc_emails ''ToAddresses''
       = Some recipient_emails
   \<and> (''CcAddresses'' \<in> dom (send_email_destination recipient_emails cc_emails bcc_emails)
        \<longleftrightarrow> (\<exists>cc. cc_emails = Some cc \<and> cc \<noteq> []))
   \<and> (''BccAddresses'' \<in> dom (send_email_destination recipient_emails cc_emails bcc_emails)
        \<longleftrightarrow> (\<exists>bcc. bcc_emails = Some bcc \<and> bcc \<noteq> []))
   \<and> send_email_destination recipient_emails cc_emails bcc_emails ''CcAddresses''
       = (if cc_emails = Some [] then None else cc_emails)
   \<and> send_email_destination recipient_emails cc_emails bcc_emails ''BccAddresses''
       = (if bcc_emails = Some [] then None else bcc_emails)"
  by (auto simp: send_email_call send_email_destination_apply truthy_def dom_def
      split: option.splits if_splits)

theorem send_email_destination_fields_witness:
  "dom (send_email_destination [''b@x.com''] (Some [''c@x.com'']) (Some [])) =
     {''ToAddresses'', ''CcAddresses''}
   \<and> send_email_destination [''b@x.com''] (Some [''c@x.com'']) (Some []) ''CcAddresses''
       = Some [''c@x.com'']"
  using send_email_destination_fields [of "''a@x.com''" "[''b@x.com'']" "''Hi''" "''<p>Hi</p>''"
      None "Some [''c@x.com'']" "Some []" "example_state echo_client"]
  by (auto simp: send_email_destination_apply truthy_def dom_def split: if_splits)

text \<open>
  C4. The message that \<open>send_email\<close> hands to the provider always has, in its Body, the
  key Html, whose Data is the HTML content given; its Body has the key Text only if a
  text content was supplied, and then Text holds that content.
\<close>

theorem send_email_message_body:
  "fst (send_email sender_email recipient_emails subject html_content text_content cc_emails bcc_emails s) =
     (case fst (api_send_email (ses_client s) sender_email
                  (send_email_destination recipient_emails cc_emails bcc_emails)
                  (send_email_message subject html_content text_content) (provider s)) of
        Inr response \<Rightarrow> Inr (Some response)
      | Inl (ClientError e) \<Rightarrow> Inr None
      | Inl other \<Rightarrow> Inl other)
   \<and> Body (send_email_message subject html_content text_content) ''Html''
       = Some [''Data'' \<mapsto> html_content, ''Charset'' \<mapsto> ''UTF-8'']
   \<and> (''Text'' \<in> dom (Body (send_email_message subject html_content text_content))
        \<longrightarrow> text_content \<noteq> None
            \<and> Body (send_email_message subject html_content text_content) ''Text''
                = Some [''Data'' \<mapsto> the text_content, ''Charset'' \<mapsto> ''UTF-8''])
   \<and> dom (Body (send_email_message subject html_content text_content))
        \<subseteq> {''Html'', ''Text''}"
  by (auto simp: send_email_call Body_send_email_message truthy_def dom_def
      split: option.splits if_splits)

theorem send_email_message_body_witness:
  "''Text'' \<in> dom (Body (send_email_message ''Hi'' ''<p>Hi</p>'' (Some ''Hello'')))
   \<and> Body (send_email_message ''Hi'' ''<p>Hi</p>'' (Some ''Hello'')) ''Text''
       = Some [''Data'' \<mapsto> ''Hello'', ''Charset'' \<mapsto> ''UTF-8'']
   \<and> Body (send_email_message ''Hi'' ''<p>Hi</p>'' (Some ''Hello'')) ''Html''
       = Some [''Data'' \<mapsto> ''<p>Hi</p>'', ''Charset'' \<mapsto> ''UTF-8'']"
proof -
  have present: "''Text'' \<in> dom (Body (send_email_message ''Hi'' ''<p>Hi</p>'' (Some ''Hello'')))"
    by (simp add: Body_send_email_message truthy_def dom_def)
  with send_email_message_body [of "''a@x.com''" "[''b@x.com'']" "''Hi''" "''<p>Hi</p>''"
      "Some ''Hello''" None None "example_state echo_client"]
  show ?thesis by simp
qed

section \<open>The To header and the destinations of the raw send\<close>



section \<open>verify_email_address\<close>

text \<open>
  C6. \<open>verify_email_address\<close> returns \<^verbatim>\<open>True\<close> exactly when the provider accepts
  the verification request: the result is a function of the provider's answer to that
  one request, and of nothing that happens later. When the provider reports a failure
  (\<^verbatim>\<open>ClientError\<close>) the operation prints the failure and returns \<^verbatim>\<open>False\<close>, and
  no exception reaches the caller.
\<close>

theorem verify_email_address_result:
  "(fst (verify_email_address email_address s) = Inr True
      \<longleftrightarrow> (\<exists>response. fst (api_verify_email_identity (ses_client s) email_address (provider s))
                         = Inr response))
   \<and> (api_verify_email_identity (ses_client s) email_address (provider s) = (Inr response, p) \<longrightarrow>
        verify_email_address email_address s
          = (Inr True, s\<lparr>provider := p,
                          stdout := stdout s @ [''Verification email sent to '' @ email_address]\<rparr>))
   \<and> (api_verify_email_identity (ses_client s) email_address (provider s)
          = (Inl (ClientError e), p) \<longrightarrow>
        verify_email_address email_address s
          = (Inr False, s\<lparr>provider := p,
                           stdout := stdout s @ [''Error verifying email address: '' @ e]\<rparr>))"
  by (auto simp: verify_email_address_def print_def split: prod.splits sum.splits exn.splits)

theorem verify_email_address_result_witness:
  "fst (verify_email_address ''a@x.com'' (example_state echo_client)) = Inr True
   \<and> stdout (snd (verify_email_address ''a@x.com'' (example_state echo_client)))
       = [''Verification email sent to a@x.com'']
   \<and> fst (verify_email_address ''a@x.com'' (example_state rejecting_client)) = Inr False
   \<and> stdout (snd (verify_email_address ''a@x.com'' (example_state rejecting_client)))
       = [''Error verifying email address: Throttling'']"
  using
    verify_email_address_result [of "''a@x.com''" "example_state echo_client" "()" 0 "''Throttling''"]
    verify_email_address_result [of "''a@x.com''" "example_state rejecting_client" "()" 0
      "''Throttling''"]
  by (simp add: example_state_def echo_client_def rejecting_client_def)

section \<open>get_send_quota\<close>

text \<open>
  C8. When the provider answers, \<open>get_send_quota\<close> returns the provider's answer as it
  is: the ceiling of the rolling 24 hours, the maximal send rate, and the count sent in
  the last 24 hours. When the provider reports a failure (\<^verbatim>\<open>ClientError\<close>) the
  operation prints the failure and returns \<^verbatim>\<open>None\<close>, and no exception reaches the
  caller.
\<close>

theorem get_send_quota_result:
  "(api_get_send_quota (ses_client s) (provider s) = (Inr quota, p) \<longrightarrow>
      get_send_quota s = (Inr (Some quota), s\<lparr>provider := p\<rparr>))
   \<and> (api_get_send_quota (ses_client s) (provider s) = (Inl (ClientError e), p) \<longrightarrow>
        get_send_quota s
          = (Inr None, s\<lparr>provider := p,
                          stdout := stdout s @ [''Error getting send quota: '' @ e]\<rparr>))"
  by (simp add: get_send_quota_def print_def)

theorem get_send_quota_result_witness:
  "fst (get_send_quota (example_state echo_client))
     = Inr (Some \<lparr>Max24HourSend = 200, MaxSendRate = 1, SentLast24Hours = 0\<rparr>)
   \<and> fst (get_send_quota (example_state rejecting_client)) = Inr None
   \<and> stdout (snd (get_send_quota (example_state rejecting_client)))
       = [''Error getting send quota: Throttling'']"
  using
    get_send_quota_result [of "example_state echo_client"
      "\<lparr>Max24HourSend = 200, MaxSendRate = 1, SentLast24Hours = 0\<rparr>" 0 "''Throttling''"]
    get_send_quota_result [of "example_state rejecting_client"
      "\<lparr>Max24HourSend = 200, MaxSendRate = 1, SentLast24Hours = 0\<rparr>" 0 "''Throttling''"]
  by (simp add: example_state_def echo_client_def rejecting_client_def)

section \<open>The instance is not changed\<close>

text \<open>
  C9. None of the four operations changes the instance: after \<open>send_email\<close>,
  \<open>send_raw_email\<close>, \<open>verify_email_address\<close> and \<open>get_send_quota\<close> the region name
  and the provider client are the ones before the call, whether the call returned a
  result, returned the failure value, or let an exception through.
\<close>

theorem operations_keep_instance:
  "region_name (snd (send_email sender_email recipient_emails subject html_content text_content
                       cc_emails bcc_emails s)) = region_name s
   \<and> ses_client (snd (send_email sender_email recipient_emails subject html_content text_content
                       cc_emails bcc_emails s)) = ses_client s
   \<and> region_name (snd (send_raw_email as_string sender_email recipient_emails subject html_content
                       text_content s)) = region_name s
   \<and> ses_client (snd (send_raw_email as_string sender_email recipient_emails subject html_content
                       text_content s)) = ses_client s
   \<and> region_name (snd (verify_email_address email_address s)) = region_name s
   \<and> ses_client (snd (verify_email_address email_address s)) = ses_client s
   \<and> region_name (snd (get_send_quota s)) = region_name s
   \<and> ses_client (snd (get_send_quota s)) = ses_client s"
proof -
  have structured:
    "region_name (snd (send_email sender_email recipient_emails subject html_content text_content
                         cc_emails bcc_emails s)) = region_name s
     \<and> ses_client (snd (send_email sender_email recipient_emails subject html_content text_content
                         cc_emails bcc_emails s)) = ses_client s"
    by (simp add: send_email_def print_def split: prod.splits sum.splits exn.splits)
  have raw:
    "region_name (snd (send_raw_email as_string sender_email recipient_emails subject html_content
                         text_content s)) = region_name s
     \<and> ses_client (snd (send_raw_email as_string sender_email recipient_emails subject html_content
                         text_content s)) = ses_client s"
    by (simp add: send_raw_email_def print_def split: prod.splits sum.splits exn.splits)
  have verify:
    "region_name (snd (verify_email_address email_address s)) = region_name s
     \<and> ses_client (snd (verify_email_address email_address s)) = ses_client s"
    by (simp add: verify_email_address_def print_def split: prod.splits sum.splits exn.splits)
  have quota:
    "region_name (snd (get_send_quota s)) = region_name s
     \<and> ses_client (snd (get_send_quota s)) = ses_client s"
    by (simp add: get_send_quota_def print_def split: prod.splits sum.splits exn.splits)
  from structured raw verify quota show ?thesis
    by blast
qed

section \<open>Empty arguments count as absent ones\<close>

text \<open>
  C10. The presence checks test the truth value of the argument. So an empty text
  content does in \<open>send_email\<close> and in \<open>send_raw_email\<close> what an absent one does, and no
  text part is added; and in \<open>send_email\<close> an empty cc or bcc list does what an absent
  one does.
\<close>

theorem empty_arguments_as_absent:
  "send_email sender_email recipient_emails subject html_content (Some []) cc_emails bcc_emails s
     = send_email sender_email recipient_emails subject html_content None cc_emails bcc_emails s
   \<and> send_raw_email as_string sender_email recipient_emails subject html_content (Some []) s
     = send_raw_email as_string sender_email recipient_emails subject html_content None s
   \<and> send_email sender_email recipient_emails subject html_content text_content (Some []) bcc_emails s
     = send_email sender_email recipient_emails subject html_content text_content None bcc_emails s
   \<and> send_email sender_email recipient_emails subject html_content text_content cc_emails (Some []) s
     = send_email sender_email recipient_emails subject html_content text_content cc_emails None s
   \<and> ''Text'' \<notin> dom (Body (send_email_message subject html_content (Some [])))
   \<and> payload (send_raw_email_msg sender_email recipient_emails subject html_content (Some []))
     = [MIMEText html_content ''html'' ''utf-8'']
   \<and> ''CcAddresses'' \<notin> dom (send_email_destination recipient_emails (Some []) bcc_emails)
   \<and> ''BccAddresses'' \<notin> dom (send_email_destination recipient_emails cc_emails (Some []))"
proof -
  have txt_eq: "send_email_message subject html_content (Some [])
                = send_email_message subject html_content None"
    by (simp add: send_email_message_def truthy_def)
  have raw: "send_raw_email_msg sender_email recipient_emails subject html_content (Some [])
               = send_raw_email_msg sender_email recipient_emails subject html_content None"
    by (simp add: send_raw_email_msg_def truthy_def)
  have cc: "send_email_destination recipient_emails (Some []) bcc_emails
              = send_email_destination recipient_emails None bcc_emails"
    by (simp add: send_email_destination_def truthy_def)
  have bcc: "send_email_destination recipient_emails cc_emails (Some [])
               = send_email_destination recipient_emails cc_emails None"
    by (simp add: send_email_destination_def truthy_def)
  show ?thesis
    by (simp add: send_email_def send_raw_email_def txt_eq raw cc bcc)
      (simp add: Body_send_email_message send_email_destination_apply payload_send_raw_email_msg
        truthy_def dom_def)
qed

section \<open>What the template loader returns\<close>

text \<open>
  Against C7 as it is worded: the template of the example files is valid UTF-8 and its
  lines end in CR LF; what the loader returns is not the contents, since reading in text
  mode gives each line ending as LF.
\<close>

theorem load_html_template_crlf_counterexample:
  "files (example_state echo_client) ''template.html''
     = Text (''<p>Hi</p>'' @ [CR, LF] @ ''<p>Bye</p>'' @ [CR, LF])
   \<and> fst (load_html_template ''template.html'' (example_state echo_client))
       \<noteq> Inr (Some (''<p>Hi</p>'' @ [CR, LF] @ ''<p>Bye</p>'' @ [CR, LF]))
   \<and> fst (load_html_template ''template.html'' (example_state echo_client))
       = Inr (Some (''<p>Hi</p>'' @ [LF] @ ''<p>Bye</p>'' @ [LF]))"
  by (simp add: load_html_template_def open_read_def example_state_def example_files_def
      CR_def LF_def)

text \<open>
  C7, amended. The loader never lets an exception through. For a path with no file it
  prints that the template was not found and returns \<^verbatim>\<open>None\<close>; for a file that
  cannot be read, or whose bytes are not UTF-8, it prints the error and returns
  \<^verbatim>\<open>None\<close>. For a file that is valid UTF-8 it returns the text of the file with every
  line ending (CR LF or CR alone) given as LF, and prints nothing: the exact contents
  when the file holds no carriage return.
\<close>

theorem load_html_template_result:
  "(\<exists>r. fst (load_html_template template_path s) = Inr r)
   \<and> (files s template_path = Absent \<longrightarrow>
        load_html_template template_path s
          = (Inr None, s\<lparr>stdout := stdout s @ [''Template file not found: '' @ template_path]\<rparr>))
   \<and> (files s template_path = Unreadable e \<or> files s template_path = Undecodable e \<longrightarrow>
        load_html_template template_path s
          = (Inr None, s\<lparr>stdout := stdout s @ [''Error reading template file: '' @ e]\<rparr>))
   \<and> (files s template_path = Text t \<longrightarrow>
        load_html_template template_path s = (Inr (Some (universal_newlines t)), s))
   \<and> (files s template_path = Text t \<and> CR \<notin> set t \<longrightarrow>
        load_html_template template_path s = (Inr (Some t), s))"
  by (auto simp: load_html_template_def open_read_def print_def universal_newlines_no_CR
      split: file_entry.splits)

theorem load_html_template_result_witness:
  "load_html_template ''nowhere.html'' (example_state echo_client)
     = (Inr None, (example_state echo_client)
                    \<lparr>stdout := [''Template file not found: nowhere.html'']\<rparr>)
   \<and> load_html_template ''locked.html'' (example_state echo_client)
     = (Inr None, (example_state echo_client)
                    \<lparr>stdout := [''Error reading template file: [Errno 13] Permission denied'']\<rparr>)
   \<and> load_html_template ''plain.html'' (example_state echo_client)
     = (Inr (Some ''<p>Hi</p>''), example_state echo_client)
   \<and> fst (load_html_template ''template.html'' (example_state echo_client))
     = Inr (Some (''<p>Hi</p>'' @ [LF] @ ''<p>Bye</p>'' @ [LF]))"
proof -
  have absent: "files (example_state echo_client) ''nowhere.html'' = Absent"
    by (simp add: example_state_def example_files_def)
  have locked: "files (example_state echo_client) ''locked.html''
                  = Unreadable ''[Errno 13] Permission denied''"
    by (simp add: example_state_def example_files_def)
  have plain: "files (example_state echo_client) ''plain.html'' = Text ''<p>Hi</p>''
                 \<and> CR \<notin> set ''<p>Hi</p>''"
    by (simp add: example_state_def example_files_def CR_def)
  have crlf: "files (example_state echo_client) ''template.html''
                = Text (''<p>Hi</p>'' @ [CR, LF] @ ''<p>Bye</p>'' @ [CR, LF])"
    by (simp add: example_state_def example_files_def)
  have nl: "universal_newlines (''<p>Hi</p>'' @ [CR, LF] @ ''<p>Bye</p>'' @ [CR, LF])
              = ''<p>Hi</p>'' @ [LF] @ ''<p>Bye</p>'' @ [LF]"
    by (simp add: CR_def LF_def)
  have stdout0: "stdout (example_state echo_client) = []"
    by (simp add: example_state_def)
  have a: "load_html_template ''nowhere.html'' (example_state echo_client)
             = (Inr None, (example_state echo_client)
                            \<lparr>stdout := [''Template file not found: nowhere.html'']\<rparr>)"
    using load_html_template_result [of "''nowhere.html''" "example_state echo_client"
        "''[Errno 13] Permission denied''" "''<p>Hi</p>''"] absent stdout0
    by simp
  have b: "load_html_template ''locked.html'' (example_state echo_client)
             = (Inr None, (example_state echo_client)
                  \<lparr>stdout := [''Error reading template file: [Errno 13] Permission denied'']\<rparr>)"
    using load_html_template_result [of "''locked.html''" "example_state echo_client"
        "''[Errno 13] Permission denied''" "''<p>Hi</p>''"] locked stdout0
    by simp
  have c: "load_html_template ''plain.html'' (example_state echo_client)
             = (Inr (Some ''<p>Hi</p>''), example_state echo_client)"
    using load_html_template_result [of "''plain.html''" "example_state echo_client"
        "''[Errno 13] Permission denied''" "''<p>Hi</p>''"] plain
    by blast
  have d: "fst (load_html_template ''template.html'' (example_state echo_client))
             = Inr (Some (''<p>Hi</p>'' @ [LF] @ ''<p>Bye</p>'' @ [LF]))"
    using load_html_template_result [of "''template.html''" "example_state echo_client"
        "''[Errno 13] Permission denied''"
        "''<p>Hi</p>'' @ [CR, LF] @ ''<p>Bye</p>'' @ [CR, LF]"] crlf nl
    by simp
  from a b c d show ?thesis
    by blast
qed

end
